theory Spec2Isabelle
  imports Main "HOL-Library.Word"
begin

unbundle bit_operations_syntax

section \<open>Fixed-width C types and struct layout\<close>

text \<open>
  The header declares the firmware's structures with fixed-width integer types, byte
  arrays and pointers. A declaration is kept as the list of its members, in source order.
  The size of a pointer is the one quantity the header does not spell out, so every layout
  function takes it as its first argument \<open>P\<close> (in bytes); on the SH-4 of the fx-CP400 it
  is 4 (the header calls the pointer \<open>me\<close> "the first dword" of the table).
\<close>

datatype ctype = uint8_t | uint16_t | uint32_t | int32_t | pointer | array ctype nat

fun sizeof :: "nat \<Rightarrow> ctype \<Rightarrow> nat" where
  "sizeof P uint8_t = 1"
| "sizeof P uint16_t = 2"
| "sizeof P uint32_t = 4"
| "sizeof P int32_t = 4"
| "sizeof P pointer = P"
| "sizeof P (array t n) = n * sizeof P t"

fun alignof :: "nat \<Rightarrow> ctype \<Rightarrow> nat" where
  "alignof P (array t n) = alignof P t"
| "alignof P t = sizeof P t"

text \<open>
  A member of a struct body: a plain declaration \<open>type name;\<close>, or one of the two macros
  \<open>VTABLE_FAKE_ENTRY(n, x)\<close> and \<open>VTABLE_ENTRY(return_type, name, ...)\<close>. The return and
  argument types of an entry only type the function pointer, which is a pointer whatever
  they are, so the model keeps the name alone. The token \<open>x\<close> pasted after \<open>fakeentry\<close>
  is kept as the text that is pasted.
\<close>

datatype member =
    Member ctype string
  | VTABLE_FAKE_ENTRY nat string
  | VTABLE_ENTRY string

fun expand :: "member \<Rightarrow> (string \<times> ctype) list" where
  "expand (Member t name) = [(name, t)]"
| "expand (VTABLE_FAKE_ENTRY n x) = [(''fakeentry'' @ x, array uint32_t (n * 3))]"
| "expand (VTABLE_ENTRY name) =
     [(name @ ''_Offset'', int32_t), (name @ ''_Unused'', uint32_t), (name, pointer)]"

definition struct_fields :: "member list \<Rightarrow> (string \<times> ctype) list" where
  "struct_fields ms = concat (map expand ms)"

text \<open>
  The layout rule of the C ABI: members in declaration order, each at the next offset that
  is a multiple of its alignment; the struct's size is the end of the last member rounded
  up to the largest member alignment.
\<close>

definition align_up :: "nat \<Rightarrow> nat \<Rightarrow> nat" where
  "align_up a n = ((n + a - 1) div a) * a"

fun place :: "nat \<Rightarrow> nat \<Rightarrow> (string \<times> ctype) list \<Rightarrow> (string \<times> nat) list" where
  "place P off [] = []"
| "place P off ((name, t) # fs) =
     (let at = align_up (alignof P t) off in (name, at) # place P (at + sizeof P t) fs)"

fun extent :: "nat \<Rightarrow> nat \<Rightarrow> (string \<times> ctype) list \<Rightarrow> nat" where
  "extent P off [] = off"
| "extent P off ((name, t) # fs) = extent P (align_up (alignof P t) off + sizeof P t) fs"

definition struct_align :: "nat \<Rightarrow> (string \<times> ctype) list \<Rightarrow> nat" where
  "struct_align P fs = fold max (map (\<lambda>(name, t). alignof P t) fs) 1"

definition sizeof_struct :: "nat \<Rightarrow> member list \<Rightarrow> nat" where
  "sizeof_struct P ms =
     align_up (struct_align P (struct_fields ms)) (extent P 0 (struct_fields ms))"

definition offsetof :: "nat \<Rightarrow> member list \<Rightarrow> string \<Rightarrow> nat option" where
  "offsetof P ms name = map_of (place P 0 (struct_fields ms)) name"

subsection \<open>The structures of the header\<close>

definition GUIDialog_Wrapped_VTable :: "member list" where
  "GUIDialog_Wrapped_VTable =
    [ Member pointer ''me'',
      Member (array uint32_t 2) ''fakeentrypadding'',
      VTABLE_FAKE_ENTRY 1 ''0'',
      VTABLE_ENTRY ''OnEvent'',
      VTABLE_FAKE_ENTRY 1 ''1'',
      VTABLE_ENTRY ''AddElement'',
      VTABLE_FAKE_ENTRY 4 ''2'',
      VTABLE_ENTRY ''Refresh'',
      VTABLE_FAKE_ENTRY 23 ''3'',
      VTABLE_ENTRY ''ShowDialog'',
      VTABLE_FAKE_ENTRY 20 ''4'' ]"

definition GUIDialog_Wrapped :: "member list" where
  "GUIDialog_Wrapped =
    [ Member (array uint8_t 0x10) ''unknown0'',
      Member uint16_t ''leftX'',
      Member uint16_t ''topY'',
      Member uint16_t ''rightX'',
      Member uint16_t ''bottomY'',
      Member (array uint8_t 0x34) ''unknown1'',
      Member pointer ''vtable'',
      Member (array uint8_t 0x58) ''unknown2'' ]"

definition GUIDialog_OnEvent_Data :: "member list" where
  "GUIDialog_OnEvent_Data =
    [ Member uint16_t ''type'',
      Member uint16_t ''unknown0'',
      Member pointer ''element'' ]"

definition GUIDropDownMenu_Wrapped_VTable :: "member list" where
  "GUIDropDownMenu_Wrapped_VTable =
    [ VTABLE_FAKE_ENTRY 5 ''0'',
      VTABLE_ENTRY ''AddMenuItem'',
      VTABLE_FAKE_ENTRY 28 ''1'',
      VTABLE_ENTRY ''SetScrollBarVisibility'' ]"

definition GUIDropDownMenu_Wrapped :: "member list" where
  "GUIDropDownMenu_Wrapped =
    [ Member (array uint8_t 0x4C) ''unknown0'',
      Member pointer ''vtable'' ]"

definition GUITextBox_Wrapped_VTable :: "member list" where
  "GUITextBox_Wrapped_VTable =
    [ VTABLE_FAKE_ENTRY 32 ''0'',
      VTABLE_ENTRY ''SetText'' ]"

definition GUITextBox_Wrapped :: "member list" where
  "GUITextBox_Wrapped =
    [ Member (array uint8_t 0x4C) ''unknown0'',
      Member pointer ''vtable'',
      Member (array uint8_t 0x4) ''unknown1'',
      Member pointer ''text'',
      Member (array uint8_t 0x48) ''unknown2'' ]"

text \<open>
  The two \<open>static_assert\<close>s of the header, as the conditions the compiler evaluates.
\<close>

definition static_assert_GUIDialog_Wrapped :: "nat \<Rightarrow> bool" where
  "static_assert_GUIDialog_Wrapped P \<longleftrightarrow> sizeof_struct P GUIDialog_Wrapped = 0xA8"

definition static_assert_GUITextBox_Wrapped :: "nat \<Rightarrow> bool" where
  "static_assert_GUITextBox_Wrapped P \<longleftrightarrow> sizeof_struct P GUITextBox_Wrapped = 0xA0"

section \<open>GUIButton::GetEventType\<close>

text \<open>
  \<open>return ((eventType + 8) << 4) | (1 << 3);\<close> The \<open>uint16_t\<close> argument is promoted to
  \<open>int\<close>, the expression is evaluated there, and the result is converted back to
  \<open>uint16_t\<close> by the return. The model evaluates on the integers and truncates at the
  end; \<open>GetEventType_no_int_overflow\<close> shows that the intermediate value fits a 32-bit
  \<open>int\<close>, so the integers are the C++ \<open>int\<close> here.
\<close>

definition GetEventType :: "16 word \<Rightarrow> 16 word" where
  "GetEventType eventType = word_of_int (push_bit 4 (uint eventType + 8) OR push_bit 3 1)"

section \<open>Slot positions in a table of three-word slots\<close>

text \<open>
  The firmware's dispatch table is a sequence of slots of three 32-bit words each, so slot
  \<open>j\<close> starts at byte \<open>12 * j\<close>. \<open>slot_places j ms\<close> gives, for a run of macro members
  that starts at slot \<open>j\<close>, the byte position every declared name must have in such a table:
  an entry is one slot (its offset word, its unused word, its function pointer), a fake
  entry for \<open>n\<close> stands for \<open>n\<close> slots. It is written from this reading of the table, not
  from the macros' expansions; the two are compared below.
\<close>

fun is_macro :: "member \<Rightarrow> bool" where
  "is_macro (Member t name) = False"
| "is_macro (VTABLE_FAKE_ENTRY n x) = True"
| "is_macro (VTABLE_ENTRY name) = True"

fun slot_count :: "member \<Rightarrow> nat" where
  "slot_count (Member t name) = 0"
| "slot_count (VTABLE_FAKE_ENTRY n x) = n"
| "slot_count (VTABLE_ENTRY name) = 1"

fun slot_places :: "nat \<Rightarrow> member list \<Rightarrow> (string \<times> nat) list" where
  "slot_places j [] = []"
| "slot_places j (Member t name # ms) = (name, 12 * j) # slot_places j ms"
| "slot_places j (VTABLE_FAKE_ENTRY n x # ms) =
     (''fakeentry'' @ x, 12 * j) # slot_places (j + n) ms"
| "slot_places j (VTABLE_ENTRY name # ms) =
     (name @ ''_Offset'', 12 * j) # (name @ ''_Unused'', 12 * j + 4) # (name, 12 * j + 8)
       # slot_places (j + 1) ms"

section \<open>Memory and calls through a dispatch table\<close>

text \<open>
  Pointers are 32-bit addresses. Memory is kept at the granularity of the 32-bit cell: a
  cell is named by the byte address it starts at, and every access below is to a whole
  cell. That is enough here, because every member of a dispatch table and the table
  pointer of a foreign object are 32-bit quantities at 4-byte offsets (proved below);
  the theorems ask for the byte ranges of the objects involved to be
  disjoint, so two cells they compare never overlap. Member access \<open>p->name\<close> is the cell
  at \<open>p + field S name\<close>, where \<open>S\<close> is the declared type of \<open>*p\<close>.
\<close>

type_synonym addr = "32 word"
type_synonym memory = "addr \<Rightarrow> 32 word"

text \<open>
  A name the struct does not declare does not compile; \<open>field_offset\<close> is only ever
  applied to declared names.
\<close>

definition field_offset :: "member list \<Rightarrow> string \<Rightarrow> nat" where
  "field_offset S name = the (offsetof 4 S name)"

definition field :: "member list \<Rightarrow> string \<Rightarrow> addr" where
  "field S name = of_nat (field_offset S name)"

text \<open>
  \<open>reinterpret_cast<uint8_t *>(self) + (vtable)->name##_Offset\<close>: the pointer is moved by
  a signed number of bytes (the offset member is an \<open>int32_t\<close>), within the 32-bit address
  space.
\<close>

definition ptr_add_bytes :: "addr \<Rightarrow> 32 word \<Rightarrow> addr" where
  "ptr_add_bytes p off = word_of_int (uint p + sint off)"

text \<open>
  \<open>VTABLE_CALL_EXT(self, vtable, name, ...)\<close> expands to
  \<open>(vtable)->name(<self moved by (vtable)->name_Offset bytes>, ...)\<close>. The struct type
  \<open>S\<close> of \<open>*vtable\<close>, which C++ takes from the pointer's type, is an argument here, and so
  is \<open>call\<close>, what it means to call the function at an address with a list of arguments
  (all arguments of the functions in these tables are 32-bit values). \<open>VTABLE_CALL\<close>
  reads the table pointer from the member \<open>vtable\<close> of \<open>*self\<close>, of struct type \<open>T\<close>.
\<close>

definition VTABLE_CALL_EXT ::
  "(addr \<Rightarrow> 32 word list \<Rightarrow> 'r) \<Rightarrow> member list \<Rightarrow> memory \<Rightarrow>
   addr \<Rightarrow> addr \<Rightarrow> string \<Rightarrow> 32 word list \<Rightarrow> 'r" where
  "VTABLE_CALL_EXT call S m self vtable name args =
     call (m (vtable + field S name))
       (ptr_add_bytes self (m (vtable + field S (name @ ''_Offset''))) # args)"

definition VTABLE_CALL ::
  "(addr \<Rightarrow> 32 word list \<Rightarrow> 'r) \<Rightarrow> member list \<Rightarrow> member list \<Rightarrow> memory \<Rightarrow>
   addr \<Rightarrow> string \<Rightarrow> string \<Rightarrow> 32 word list \<Rightarrow> 'r" where
  "VTABLE_CALL call T S m self vtable name args =
     VTABLE_CALL_EXT call S m self (m (self + field T vtable)) name args"

section \<open>Wrapper objects and the shadowed dialog table\<close>

text \<open>
  \<open>class Wrapped\<close> holds \<open>m_wrapped\<close>; \<open>class GUIDialog : public Wrapped\<close> adds
  \<open>m_oldVTable\<close> and the embedded table \<open>m_vtable\<close>. The firmware reads \<open>m_vtable\<close>
  through the foreign object's table pointer, so its cells live in \<open>mem\<close>, at
  \<open>this + m_vtable_offset\<close>; the other members are kept in a record per object, found by
  the object's address. \<open>OnEvent\<close> is virtual: \<open>dynamic_class\<close> names the class whose
  override an object runs.
\<close>

record Wrapped =
  m_wrapped :: addr

record GUIDialog = Wrapped +
  m_oldVTable :: addr
  dynamic_class :: nat

definition GetWrapped :: "'a Wrapped_scheme \<Rightarrow> addr" where
  "GetWrapped obj = m_wrapped obj"

record state =
  mem :: memory
  objs :: "addr \<rightharpoonup> GUIDialog"

text \<open>
  What the header leaves to the firmware and the linker: the behaviour of the firmware
  function at each code address (it sees memory only), the address of the static member
  function \<open>GUIDialog::OnEvent_Wrap\<close>, and the offset of the member \<open>m_vtable\<close>
  inside a \<open>GUIDialog\<close> object (fixed by the C++ ABI). The overrides of the virtual
  \<open>OnEvent\<close> are client code: the functions below take them as an argument \<open>virt\<close>, one
  handler per dynamic class, a function of \<open>this\<close>, the two arguments and the state;
  \<open>None\<close> is undefined behaviour. A client may extend the state by members of its own.
\<close>

record image =
  firmware :: "addr \<Rightarrow> 32 word list \<Rightarrow> memory \<Rightarrow> 32 word \<times> memory"
  OnEvent_Wrap_addr :: addr
  m_vtable_offset :: addr

type_synonym 'u handler =
  "addr \<Rightarrow> addr \<Rightarrow> addr \<Rightarrow> 'u state_scheme \<Rightarrow> (32 word \<times> 'u state_scheme) option"


text \<open>
  Copying \<open>nbytes\<close> bytes (a multiple of 4 for every table here), cell by cell from the
  lowest address, each cell read from the memory as the copy so far has left it.
\<close>

fun copy_words :: "memory \<Rightarrow> addr \<Rightarrow> addr \<Rightarrow> nat \<Rightarrow> memory" where
  "copy_words m dst src 0 = m"
| "copy_words m dst src (Suc n) = copy_words (m(dst := m src)) (dst + 4) (src + 4) n"

definition memcpy :: "memory \<Rightarrow> addr \<Rightarrow> addr \<Rightarrow> nat \<Rightarrow> memory" where
  "memcpy m dst src nbytes = copy_words m dst src (nbytes div 4)"

text \<open>
  Modelled from the spec: the body of the constructor \<open>GUIDialog::GUIDialog\<close>, which the
  header only declares. After the external initializer \<open>GUI_CreateDialog\<close> has returned
  the foreign object \<open>wrapped\<close>, construction copies the foreign object's current table
  byte for byte into the wrapper's own \<open>m_vtable\<close> (the Shadow), writes the wrapper's own
  address into the Identity Slot \<open>me\<close>, overwrites the \<open>OnEvent\<close> slot's function pointer
  with the Trampoline's address, and relinks the foreign object's table pointer to the
  Shadow. The pointer to the original table is kept in \<open>m_oldVTable\<close>. \<open>cls\<close> is the
  class of the complete object.
\<close>

definition GUIDialog_ctor ::
  "image \<Rightarrow> addr \<Rightarrow> nat \<Rightarrow> addr \<Rightarrow> 'u state_scheme \<Rightarrow> 'u state_scheme" where
  "GUIDialog_ctor img this cls wrapped s =
     (let old = mem s (wrapped + field GUIDialog_Wrapped ''vtable'');
          shadow = this + m_vtable_offset img;
          m1 = memcpy (mem s) shadow old (sizeof_struct 4 GUIDialog_Wrapped_VTable);
          m2 = m1(shadow + field GUIDialog_Wrapped_VTable ''me'' := this);
          m3 = m2(shadow + field GUIDialog_Wrapped_VTable ''OnEvent'' := OnEvent_Wrap_addr img);
          m4 = m3(wrapped + field GUIDialog_Wrapped ''vtable'' := shadow)
      in s\<lparr>mem := m4,
            objs := (objs s)(this \<mapsto>
              \<lparr>m_wrapped = wrapped, m_oldVTable = old, dynamic_class = cls\<rparr>)\<rparr>)"

text \<open>
  Modelled from the spec: the body of the static member function
  \<open>GUIDialog::OnEvent_Wrap\<close> (the Trampoline), which the header only declares. Given the
  foreign self-pointer it was called with, it follows the foreign object's table pointer
  to the Shadow, reads the Identity Slot there (\<open>dialog->vtable->me\<close>) and so recovers the
  wrapper; then it calls the wrapper's virtual \<open>OnEvent\<close> with the same two arguments.
  An Identity Slot that does not hold the address of a live wrapper is undefined
  behaviour.
\<close>

definition recover_wrapper :: "memory \<Rightarrow> addr \<Rightarrow> addr" where
  "recover_wrapper m dialog =
     m (m (dialog + field GUIDialog_Wrapped ''vtable'') + field GUIDialog_Wrapped_VTable ''me'')"

definition OnEvent_Wrap ::
  "(nat \<Rightarrow> 'u handler) \<Rightarrow> addr \<Rightarrow> addr \<Rightarrow> 'u state_scheme \<Rightarrow>
   (32 word \<times> 'u state_scheme) option" where
  "OnEvent_Wrap virt dialog event s =
     (let me = recover_wrapper (mem s) dialog
      in case objs s me of
           None \<Rightarrow> None
         | Some obj \<Rightarrow> virt (dynamic_class obj) me dialog event s)"




text \<open>Constructing several wrappers one after the other: (this, class, foreign object).\<close>

fun construct_all ::
  "image \<Rightarrow> (addr \<times> nat \<times> addr) list \<Rightarrow> 'u state_scheme \<Rightarrow> 'u state_scheme" where
  "construct_all img [] s = s"
| "construct_all img ((this, cls, w) # rest) s =
     construct_all img rest (GUIDialog_ctor img this cls w s)"

text \<open>
  A run of events: the Trampoline is called once per event, with the foreign object the
  event is addressed to, one call after the other on the state the previous call left.
  The results are collected in order.
\<close>

fun dispatch_all ::
  "(nat \<Rightarrow> 'u handler) \<Rightarrow> (addr \<times> addr) list \<Rightarrow> 'u state_scheme \<Rightarrow>
   (32 word list \<times> 'u state_scheme) option" where
  "dispatch_all virt [] s = Some ([], s)"
| "dispatch_all virt ((dialog, event) # rest) s =
     (case OnEvent_Wrap virt dialog event s of
        None \<Rightarrow> None
      | Some (r, s') \<Rightarrow>
          (case dispatch_all virt rest s' of
             None \<Rightarrow> None
           | Some (rs, s'') \<Rightarrow> Some (r # rs, s'')))"

text \<open>
  The same run with no table in between: each event is handed straight to the override of
  the wrapper that owns the foreign object it is addressed to. This is what "each
  instance's own override" means, written without the Trampoline; the two runs are
  compared below.
\<close>

fun owner :: "(addr \<times> nat \<times> addr) list \<Rightarrow> addr \<Rightarrow> (addr \<times> nat) option" where
  "owner [] dialog = None"
| "owner ((this, cls, w) # rest) dialog =
     (if w = dialog then Some (this, cls) else owner rest dialog)"

fun direct_all ::
  "(nat \<Rightarrow> 'u handler) \<Rightarrow> (addr \<times> nat \<times> addr) list \<Rightarrow> (addr \<times> addr) list \<Rightarrow>
   'u state_scheme \<Rightarrow> (32 word list \<times> 'u state_scheme) option" where
  "direct_all virt insts [] s = Some ([], s)"
| "direct_all virt insts ((dialog, event) # rest) s =
     (case owner insts dialog of
        None \<Rightarrow> None
      | Some (this, cls) \<Rightarrow>
          (case virt cls this dialog event s of
             None \<Rightarrow> None
           | Some (r, s') \<Rightarrow>
               (case direct_all virt insts rest s' of
                  None \<Rightarrow> None
                | Some (rs, s'') \<Rightarrow> Some (r # rs, s''))))"

section \<open>Where the objects lie\<close>

text \<open>
  The conditions under which the theorems speak: byte ranges that do not run past the end
  of the address space, and pairs of byte ranges that do not overlap.
\<close>

definition in_range :: "addr \<Rightarrow> nat \<Rightarrow> bool" where
  "in_range a n \<longleftrightarrow> unat a + n \<le> 2 ^ 32"

definition apart :: "addr \<Rightarrow> nat \<Rightarrow> addr \<Rightarrow> nat \<Rightarrow> bool" where
  "apart a n b k \<longleftrightarrow> unat a + n \<le> unat b \<or> unat b + k \<le> unat a"

text \<open>
  For one construction: the wrapper's \<open>m_vtable\<close>, the table the foreign object points
  to, and the foreign object's table-pointer member are three disjoint ranges.
\<close>

definition ctor_storage_ok :: "image \<Rightarrow> addr \<Rightarrow> addr \<Rightarrow> memory \<Rightarrow> bool" where
  "ctor_storage_ok img this w m \<longleftrightarrow>
     (let shadow = this + m_vtable_offset img;
          vp = w + field GUIDialog_Wrapped ''vtable'';
          old = m vp;
          n = sizeof_struct 4 GUIDialog_Wrapped_VTable
      in in_range shadow n \<and> in_range old n \<and> in_range vp 4 \<and>
         apart shadow n old n \<and> apart vp 4 shadow n \<and> apart vp 4 old n)"

text \<open>
  For several wrappers alive together: each wrapper's \<open>m_vtable\<close> and each foreign
  object's table-pointer member is a range of its own, disjoint from all the others.
\<close>

fun instance_ok :: "image \<Rightarrow> addr \<times> nat \<times> addr \<Rightarrow> bool" where
  "instance_ok img (this, cls, w) \<longleftrightarrow>
     in_range (this + m_vtable_offset img) (sizeof_struct 4 GUIDialog_Wrapped_VTable) \<and>
     in_range (w + field GUIDialog_Wrapped ''vtable'') 4 \<and>
     apart (w + field GUIDialog_Wrapped ''vtable'') 4
       (this + m_vtable_offset img) (sizeof_struct 4 GUIDialog_Wrapped_VTable)"

fun instances_apart :: "image \<Rightarrow> addr \<times> nat \<times> addr \<Rightarrow> addr \<times> nat \<times> addr \<Rightarrow> bool" where
  "instances_apart img (this1, cls1, w1) (this2, cls2, w2) \<longleftrightarrow>
     apart (this1 + m_vtable_offset img) (sizeof_struct 4 GUIDialog_Wrapped_VTable)
       (this2 + m_vtable_offset img) (sizeof_struct 4 GUIDialog_Wrapped_VTable) \<and>
     apart (w1 + field GUIDialog_Wrapped ''vtable'') 4
       (this2 + m_vtable_offset img) (sizeof_struct 4 GUIDialog_Wrapped_VTable) \<and>
     apart (w2 + field GUIDialog_Wrapped ''vtable'') 4
       (this1 + m_vtable_offset img) (sizeof_struct 4 GUIDialog_Wrapped_VTable) \<and>
     apart (w1 + field GUIDialog_Wrapped ''vtable'') 4
       (w2 + field GUIDialog_Wrapped ''vtable'') 4"

fun all_separate :: "image \<Rightarrow> (addr \<times> nat \<times> addr) list \<Rightarrow> bool" where
  "all_separate img [] \<longleftrightarrow> True"
| "all_separate img (x # xs) \<longleftrightarrow>
     instance_ok img x \<and> list_all (instances_apart img x) xs \<and> all_separate img xs"

text \<open>
  The link between a foreign object and its wrapper that the Trampoline relies on: the
  table pointer leads to the wrapper's Shadow, whose Identity Slot holds the wrapper.
\<close>

fun wired :: "image \<Rightarrow> 'u state_scheme \<Rightarrow> addr \<times> nat \<times> addr \<Rightarrow> bool" where
  "wired img s (this, cls, w) \<longleftrightarrow>
     mem s (w + field GUIDialog_Wrapped ''vtable'') = this + m_vtable_offset img \<and>
     mem s (this + m_vtable_offset img + field GUIDialog_Wrapped_VTable ''me'') = this \<and>
     map_option dynamic_class (objs s this) = Some cls"

text \<open>
  Overrides are arbitrary code. The run theorem asks of them that a call leaves the links
  of all the instances as they are: the table pointers, the Identity Slots and the
  objects' classes.
\<close>

definition keeps_wiring ::
  "image \<Rightarrow> (addr \<times> nat \<times> addr) list \<Rightarrow> (nat \<Rightarrow> 'u handler) \<Rightarrow> bool" where
  "keeps_wiring img insts virt \<longleftrightarrow>
     (\<forall>c this d e s r s'. virt c this d e s = Some (r, s') \<longrightarrow>
        (\<forall>x\<in>set insts. wired img s x \<longrightarrow> wired img s' x))"

text \<open>
  The members of the table, with their byte offsets, that construction does not write:
  all but \<open>me\<close> and the function pointer \<open>OnEvent\<close>.
\<close>

definition copied_fields :: "(string \<times> nat) list" where
  "copied_fields =
     filter (\<lambda>(name, off). name \<noteq> ''me'' \<and> name \<noteq> ''OnEvent'')
       (place 4 0 (struct_fields GUIDialog_Wrapped_VTable))"

definition read_fields ::
  "memory \<Rightarrow> addr \<Rightarrow> (string \<times> nat) list \<Rightarrow> (string \<times> 32 word) list" where
  "read_fields m base fs = map (\<lambda>(name, off). (name, m (base + of_nat off))) fs"

subsection \<open>A concrete machine\<close>

text \<open>
  A firmware table at \<open>0x80300000\<close> whose \<open>OnEvent\<close> slot has adjustor offset 0, two
  foreign dialogs at \<open>0x8C000000\<close> and \<open>0x8C001000\<close> pointing to it, and room for two
  wrappers at \<open>0x8C100000\<close> and \<open>0x8C101000\<close>. For the run of events, the state is
  extended by a hit counter per wrapper; the override of class \<open>c\<close> counts a hit for its
  \<open>this\<close> and returns the sentinel \<open>100 + c\<close>.
\<close>

definition example_image :: image where
  "example_image =
     \<lparr>firmware = (\<lambda>f args m. (f + of_nat (length args), m)),
      OnEvent_Wrap_addr = 0x8C200000,
      m_vtable_offset = 12\<rparr>"

definition example_state :: state where
  "example_state =
     \<lparr>mem = (\<lambda>a. if a = 0x8C00004C \<or> a = 0x8C00104C then 0x80300000
                 else if a = 0x80300018 then 0 else a),
      objs = Map.empty\<rparr>"


definition example_instances :: "(addr \<times> nat \<times> addr) list" where
  "example_instances = [(0x8C100000, 0, 0x8C000000), (0x8C101000, 1, 0x8C001000)]"

record counting_state = state +
  hits :: "addr \<Rightarrow> nat"

definition counting_virt :: "nat \<Rightarrow> \<lparr>hits :: addr \<Rightarrow> nat\<rparr> handler" where
  "counting_virt c this dialog event s =
     Some (of_nat (100 + c), s\<lparr>hits := (hits s)(this := Suc (hits s this))\<rparr>)"

definition example_counting_state :: counting_state where
  "example_counting_state =
     \<lparr>mem = mem example_state, objs = objs example_state, hits = (\<lambda>a. 0)\<rparr>"

section \<open>Properties\<close>

subsection \<open>GetEventType\<close>

lemma GetEventType_no_int_overflow:
  "0 \<le> push_bit 4 (uint (e :: 16 word) + 8) OR push_bit 3 1 \<and>
   push_bit 4 (uint e + 8) OR push_bit 3 1 < 2 ^ 31"
proof -
  have "uint e < 2 ^ 16" using uint_lt2p [of e] by simp
  then have hi: "push_bit 4 (uint e + 8) < 2 ^ 21" by (simp add: push_bit_eq_mult)
  have lo: "0 \<le> push_bit 4 (uint e + 8)" by (simp add: push_bit_eq_mult)
  from lo hi have "push_bit 4 (uint e + 8) OR push_bit 3 1 < 2 ^ 21"
    by (intro OR_upper) simp_all
  moreover from lo have "0 \<le> push_bit 4 (uint e + 8) OR push_bit 3 1" by simp
  ultimately show ?thesis by simp
qed

text \<open>
  C10. For every 16-bit \<open>eventType\<close>, \<open>GUIButton::GetEventType\<close> returns
  \<open>((eventType + 8) << 4) | (1 << 3)\<close> in 16-bit unsigned arithmetic (the sum and the
  shift wrap around at \<open>2^16\<close>); the result has bit 3 set and bits 0 to 2 clear. The
  function has no state: it is a function of its argument alone.
\<close>

theorem GetEventType_spec:
  "GetEventType e = push_bit 4 (e + 8) OR push_bit 3 1 \<and>
   bit (GetEventType e) 3 \<and>
   \<not> bit (GetEventType e) 0 \<and> \<not> bit (GetEventType e) 1 \<and> \<not> bit (GetEventType e) 2"
proof -
  have eq: "GetEventType e = push_bit 4 (e + 8) OR push_bit 3 1"
    unfolding GetEventType_def
    by (simp add: word_wi_log_defs(3) [symmetric] push_bit_eq_mult wi_hom_syms)
  show ?thesis unfolding eq by (simp add: bit_simps)
qed

subsection \<open>Sizes and offsets of the declared structures\<close>

lemma field_offset_me: "field_offset GUIDialog_Wrapped_VTable ''me'' = 0"
  by (simp add: field_offset_def offsetof_def GUIDialog_Wrapped_VTable_def struct_fields_def
      align_up_def)

lemma field_offset_OnEvent: "field_offset GUIDialog_Wrapped_VTable ''OnEvent'' = 32"
  by (simp add: field_offset_def offsetof_def GUIDialog_Wrapped_VTable_def struct_fields_def
      align_up_def)


lemma field_offset_vtable: "field_offset GUIDialog_Wrapped ''vtable'' = 76"
  by (simp add: field_offset_def offsetof_def GUIDialog_Wrapped_def struct_fields_def
      align_up_def)

lemma field_me: "field GUIDialog_Wrapped_VTable ''me'' = 0"
  by (simp add: field_def field_offset_me)

lemma field_OnEvent: "field GUIDialog_Wrapped_VTable ''OnEvent'' = 32"
  by (simp add: field_def field_offset_OnEvent)


lemma field_vtable: "field GUIDialog_Wrapped ''vtable'' = 76"
  by (simp add: field_def field_offset_vtable)

lemma sizeof_VTable: "sizeof_struct 4 GUIDialog_Wrapped_VTable = 648"
  by (simp add: sizeof_struct_def GUIDialog_Wrapped_VTable_def struct_fields_def
      struct_align_def align_up_def)

lemma copied_fields_eq:
  "copied_fields =
    [(''fakeentrypadding'', 4), (''fakeentry0'', 12),
     (''OnEvent_Offset'', 24), (''OnEvent_Unused'', 28),
     (''fakeentry1'', 36), (''AddElement_Offset'', 48),
     (''AddElement_Unused'', 52), (''AddElement'', 56), (''fakeentry2'', 60),
     (''Refresh_Offset'', 108), (''Refresh_Unused'', 112), (''Refresh'', 116),
     (''fakeentry3'', 120), (''ShowDialog_Offset'', 396),
     (''ShowDialog_Unused'', 400), (''ShowDialog'', 404),
     (''fakeentry4'', 408)]"
  by (simp add: copied_fields_def GUIDialog_Wrapped_VTable_def struct_fields_def align_up_def)

text \<open>
  C6, as the code has it. The two \<open>static_assert\<close>s of the header hold on the target
  (4-byte pointers): \<open>struct GUIDialog_Wrapped\<close>, the foreign dialog object, is \<open>0xA8\<close>
  bytes and \<open>struct GUITextBox_Wrapped\<close>, the foreign text box object, is \<open>0xA0\<close> bytes;
  both keep their table pointer at byte \<open>0x4C\<close>. The conditions are evaluated by the
  compiler: with 8-byte pointers both are false and the build stops. The structures
  asserted are the foreign objects. The dispatch tables they point to are declared \<open>0x288\<close>
  and \<open>0x18C\<close> bytes long, and the header asserts nothing about their sizes.
\<close>

theorem object_size_asserted:
  "static_assert_GUIDialog_Wrapped 4 \<and> static_assert_GUITextBox_Wrapped 4 \<and>
   sizeof_struct 4 GUIDialog_Wrapped = 0xA8 \<and> sizeof_struct 4 GUITextBox_Wrapped = 0xA0 \<and>
   offsetof 4 GUIDialog_Wrapped ''vtable'' = Some 0x4C \<and>
   offsetof 4 GUITextBox_Wrapped ''vtable'' = Some 0x4C \<and>
   sizeof_struct 4 GUIDialog_Wrapped_VTable = 0x288 \<and>
   sizeof_struct 4 GUITextBox_Wrapped_VTable = 0x18C \<and>
   \<not> static_assert_GUIDialog_Wrapped 8 \<and> \<not> static_assert_GUITextBox_Wrapped 8"
  by (simp add: static_assert_GUIDialog_Wrapped_def static_assert_GUITextBox_Wrapped_def
      sizeof_struct_def offsetof_def GUIDialog_Wrapped_def GUITextBox_Wrapped_def
      GUIDialog_Wrapped_VTable_def GUITextBox_Wrapped_VTable_def
      struct_fields_def struct_align_def align_up_def)

text \<open>
  C6, as the claim words it, fails: the declared dialog table layout is not \<open>0xA8\<close> bytes
  and the declared text box table layout is not \<open>0xA0\<close> bytes.
\<close>

theorem table_size_counterexample:
  "sizeof_struct 4 GUIDialog_Wrapped_VTable \<noteq> 0xA8 \<and>
   sizeof_struct 4 GUITextBox_Wrapped_VTable \<noteq> 0xA0"
  by (simp add: sizeof_struct_def GUIDialog_Wrapped_VTable_def GUITextBox_Wrapped_VTable_def
      struct_fields_def struct_align_def align_up_def)

text \<open>
  C8. The event descriptor \<open>struct GUIDialog_OnEvent_Data\<close>, the type of the
  Trampoline's second argument, has exactly three members in this order: \<open>type\<close> (16
  bits, at byte 0), \<open>unknown0\<close> (16 bits of auxiliary data, at byte 2) and \<open>element\<close> (a
  pointer, at byte 4). Its size is the sum of the three, so there is nothing else in it.
\<close>

theorem event_descriptor_layout:
  "struct_fields GUIDialog_OnEvent_Data
     = [(''type'', uint16_t), (''unknown0'', uint16_t), (''element'', pointer)] \<and>
   map (\<lambda>(name, t). 8 * sizeof 4 t) (struct_fields GUIDialog_OnEvent_Data) = [16, 16, 32] \<and>
   place 4 0 (struct_fields GUIDialog_OnEvent_Data)
     = [(''type'', 0), (''unknown0'', 2), (''element'', 4)] \<and>
   sizeof_struct 4 GUIDialog_OnEvent_Data = 2 + 2 + 4"
  by (simp add: GUIDialog_OnEvent_Data_def sizeof_struct_def struct_fields_def struct_align_def
      align_up_def)

subsection \<open>Slots of three words\<close>

lemma align_up_4_12:
  "align_up 4 (j * 12) = j * 12"
  "align_up 4 (4 + j * 12) = 4 + j * 12"
  "align_up 4 (8 + j * 12) = 8 + j * 12"
  by (simp_all add: align_up_def) presburger+

lemma place_macro:
  "is_macro m \<Longrightarrow>
   place 4 (12 * j) (expand m @ fs) =
     slot_places j [m] @ place 4 (12 * (j + slot_count m)) fs"
  by (cases m) (simp_all add: align_up_4_12 Let_def algebra_simps)

lemma extent_macro:
  "is_macro m \<Longrightarrow> extent 4 (12 * j) (expand m @ fs) = extent 4 (12 * (j + slot_count m)) fs"
  by (cases m) (simp_all add: align_up_4_12 algebra_simps)

lemma slot_places_Cons:
  "is_macro m \<Longrightarrow> slot_places j (m # ms) = slot_places j [m] @ slot_places (j + slot_count m) ms"
  by (cases m) simp_all

lemma macros_layout:
  "list_all is_macro ms \<Longrightarrow>
   place 4 (12 * j) (struct_fields ms) = slot_places j ms \<and>
   extent 4 (12 * j) (struct_fields ms) = 12 * (j + sum_list (map slot_count ms))"
proof (induction ms arbitrary: j)
  case Nil
  then show ?case by (simp add: struct_fields_def)
next
  case (Cons m ms)
  then have m: "is_macro m" and ms: "list_all is_macro ms" by simp_all
  have sf: "struct_fields (m # ms) = expand m @ struct_fields ms"
    by (simp add: struct_fields_def)
  show ?case
    unfolding sf place_macro [OF m] extent_macro [OF m] slot_places_Cons [OF m, of j ms]
    using Cons.IH [OF ms, of "j + slot_count m"] by (simp add: algebra_simps)
qed

text \<open>
  C9. A \<open>VTABLE_ENTRY\<close> declares three members of 4 bytes each: the signed 32-bit
  adjustor offset, an unused 32-bit word and the function pointer. A
  \<open>VTABLE_FAKE_ENTRY(n, x)\<close> declares \<open>n * 3\<close> words. Hence any run of the two macros
  laid out from the start of slot \<open>j\<close> puts every name where a table of three-word slots
  has it, and ends on a slot boundary. For the dialog table, whose first slot is \<open>me\<close> and
  two padding words, the named slots \<open>OnEvent\<close>, \<open>AddElement\<close>, \<open>Refresh\<close> and
  \<open>ShowDialog\<close> are slots 2, 4, 9 and 33 of 54; the named slots of the drop-down menu
  table are slots 5 and 34, and \<open>SetText\<close> is slot 32 of the text box table. The Shadow
  \<open>m_vtable\<close> and the firmware's table are read through this one declaration, so a named
  slot has the same byte offset in both.
\<close>

theorem slot_layout:
  "map (\<lambda>(name, t). (t, sizeof 4 t)) (expand (VTABLE_ENTRY name))
     = [(int32_t, 4), (uint32_t, 4), (pointer, 4)] \<and>
   map (\<lambda>(name, t). sizeof 4 t) (expand (VTABLE_FAKE_ENTRY n x)) = [n * 3 * 4] \<and>
   (list_all is_macro ms \<longrightarrow>
      place 4 (12 * j) (struct_fields ms) = slot_places j ms \<and>
      extent 4 (12 * j) (struct_fields ms) = 12 * (j + sum_list (map slot_count ms))) \<and>
   place 4 0 (struct_fields GUIDialog_Wrapped_VTable)
     = (''me'', 0) # (''fakeentrypadding'', 4) # slot_places 1 (drop 2 GUIDialog_Wrapped_VTable) \<and>
   sizeof_struct 4 GUIDialog_Wrapped_VTable = 12 * 54 \<and>
   map (offsetof 4 GUIDialog_Wrapped_VTable)
       [''OnEvent_Offset'', ''AddElement_Offset'', ''Refresh_Offset'', ''ShowDialog_Offset'']
     = [Some (12 * 2), Some (12 * 4), Some (12 * 9), Some (12 * 33)] \<and>
   map (offsetof 4 GUIDropDownMenu_Wrapped_VTable)
       [''AddMenuItem_Offset'', ''SetScrollBarVisibility_Offset'']
     = [Some (12 * 5), Some (12 * 34)] \<and>
   map (offsetof 4 GUITextBox_Wrapped_VTable) [''SetText_Offset''] = [Some (12 * 32)]"
proof -
  have 1: "place 4 0 (struct_fields GUIDialog_Wrapped_VTable)
     = (''me'', 0) # (''fakeentrypadding'', 4) # slot_places 1 (drop 2 GUIDialog_Wrapped_VTable)"
    by (simp add: GUIDialog_Wrapped_VTable_def struct_fields_def align_up_def)
  have 2: "map (offsetof 4 GUIDialog_Wrapped_VTable)
       [''OnEvent_Offset'', ''AddElement_Offset'', ''Refresh_Offset'', ''ShowDialog_Offset'']
     = [Some (12 * 2), Some (12 * 4), Some (12 * 9), Some (12 * 33)]"
    by (simp add: offsetof_def GUIDialog_Wrapped_VTable_def struct_fields_def align_up_def)
  have 3: "map (offsetof 4 GUIDropDownMenu_Wrapped_VTable)
       [''AddMenuItem_Offset'', ''SetScrollBarVisibility_Offset'']
     = [Some (12 * 5), Some (12 * 34)]"
    by (simp add: offsetof_def GUIDropDownMenu_Wrapped_VTable_def struct_fields_def align_up_def)
  have 4: "map (offsetof 4 GUITextBox_Wrapped_VTable) [''SetText_Offset''] = [Some (12 * 32)]"
    by (simp add: offsetof_def GUITextBox_Wrapped_VTable_def struct_fields_def align_up_def)
  show ?thesis
    using macros_layout [of ms j] 1 2 3 4 by (simp add: sizeof_VTable)
qed

theorem slot_layout_witness:
  "place 4 12 (struct_fields (drop 2 GUIDialog_Wrapped_VTable))
     = slot_places 1 (drop 2 GUIDialog_Wrapped_VTable) \<and>
   extent 4 12 (struct_fields (drop 2 GUIDialog_Wrapped_VTable)) = 648"
  using slot_layout [of "''OnEvent''" 1 "''0''" "drop 2 GUIDialog_Wrapped_VTable" 1]
  by (simp add: GUIDialog_Wrapped_VTable_def)

subsection \<open>The Foreign Call Invoker\<close>

lemma ptr_add_bytes_plus: "ptr_add_bytes p off = p + off"
  by (simp add: ptr_add_bytes_def wi_hom_syms)

text \<open>
  C2. For every table type, slot name, table pointer and self-pointer,
  \<open>VTABLE_CALL_EXT\<close> does two things: it adds the slot's stored adjustor offset, read as
  a signed number of bytes, to the self-pointer (within the 32-bit address space), and it
  calls the slot's function pointer with the adjusted pointer first and the remaining
  arguments after it, unchanged and in order. \<open>VTABLE_CALL\<close> is the same routine on the
  table the object's own table pointer names, whether that is the original or a Shadow.
\<close>

theorem VTABLE_CALL_EXT_two_steps:
  "VTABLE_CALL_EXT call S m self vtable name args
     = call (m (vtable + field S name))
         ((self + m (vtable + field S (name @ ''_Offset''))) # args) \<and>
   uint (self + m (vtable + field S (name @ ''_Offset'')))
     = (uint self + sint (m (vtable + field S (name @ ''_Offset'')))) mod 2 ^ 32 \<and>
   VTABLE_CALL call T S m self vt name args
     = VTABLE_CALL_EXT call S m self (m (self + field T vt)) name args"
proof -
  have "uint (ptr_add_bytes self off) = (uint self + sint off) mod 2 ^ 32" for off
    unfolding ptr_add_bytes_def by (simp only: uint_word_of_int) simp
  then show ?thesis
    by (simp add: VTABLE_CALL_EXT_def VTABLE_CALL_def ptr_add_bytes_plus)
qed

subsection \<open>Addresses and the copy\<close>

lemma unat_plus_small:
  "unat (a :: addr) + k < 2 ^ 32 \<Longrightarrow> unat (a + of_nat k) = unat a + k"
  by (simp add: unat_word_ariths unat_of_nat take_bit_nat_eq_self)

lemma apart_neq:
  assumes "apart a n b k" "in_range a n" "in_range b k" "i < n" "j < k"
  shows "a + of_nat i \<noteq> b + of_nat j"
proof
  assume eq: "a + of_nat i = b + of_nat j"
  have "unat (a + of_nat i) = unat a + i"
    using assms(2,4) by (intro unat_plus_small) (simp add: in_range_def)
  moreover have "unat (b + of_nat j) = unat b + j"
    using assms(3,5) by (intro unat_plus_small) (simp add: in_range_def)
  ultimately have "unat a + i = unat b + j" using eq by simp
  then show False using assms(1,4,5) by (auto simp: apart_def)
qed

lemma within_neq:
  assumes "i < 2 ^ 32" "j < 2 ^ 32" "i \<noteq> j"
  shows "(a :: addr) + of_nat i \<noteq> a + of_nat j"
  using assms by (simp add: word_of_nat_eq_iff take_bit_nat_eq_self)

lemma cell_outside:
  assumes "apart a 4 b 648" "in_range a 4" "in_range b 648" "i < 162"
  shows "a \<noteq> b + 4 * of_nat i"
proof -
  have "a + of_nat 0 \<noteq> b + of_nat (4 * i)"
    using assms by (intro apart_neq [where n = 4 and k = 648]) simp_all
  then show ?thesis by simp
qed

lemma cells_apart:
  assumes "apart a 648 b 648" "in_range a 648" "in_range b 648" "i < 162" "j < 162"
  shows "a + 4 * of_nat i \<noteq> b + 4 * of_nat j"
proof -
  have "a + of_nat (4 * i) \<noteq> b + of_nat (4 * j)"
    using assms by (intro apart_neq [where n = 648 and k = 648]) simp_all
  then show ?thesis by simp
qed

lemma cells_distinct:
  assumes "i < 162" "j < 162" "i \<noteq> j"
  shows "(a :: addr) + 4 * of_nat i \<noteq> a + 4 * of_nat j"
proof -
  have "a + of_nat (4 * i) \<noteq> a + of_nat (4 * j)"
    using assms by (intro within_neq) simp_all
  then show ?thesis by simp
qed

lemma apart_cells_neq:
  assumes "apart a 4 b 4" shows "a \<noteq> b"
  using assms by (auto simp: apart_def)

lemma copy_words_other:
  "(\<And>i. i < n \<Longrightarrow> a \<noteq> dst + 4 * of_nat i) \<Longrightarrow> copy_words m dst src n a = m a"
proof (induction n arbitrary: m dst src)
  case 0 then show ?case by simp
next
  case (Suc n)
  have "a \<noteq> dst" using Suc.prems [of 0] by simp
  moreover have "\<And>i. i < n \<Longrightarrow> a \<noteq> (dst + 4) + 4 * of_nat i"
    using Suc.prems [of "Suc _"] by (simp add: algebra_simps)
  ultimately show ?case using Suc.IH [of "dst + 4"] by simp
qed

lemma copy_words_at:
  assumes "i < n"
    and "\<forall>j<n. \<forall>k<n. src + 4 * of_nat j \<noteq> dst + 4 * of_nat k"
    and "\<forall>j<n. \<forall>k<n. j \<noteq> k \<longrightarrow> dst + 4 * of_nat j \<noteq> dst + 4 * of_nat k"
  shows "copy_words m dst src n (dst + 4 * of_nat i) = m (src + 4 * of_nat i)"
  using assms
proof (induction n arbitrary: m dst src i)
  case 0 then show ?case by simp
next
  case (Suc n)
  show ?case
  proof (cases i)
    case 0
    have "copy_words (m(dst := m src)) (dst + 4) (src + 4) n dst = (m(dst := m src)) dst"
    proof (rule copy_words_other)
      fix k assume "k < n"
      then show "dst \<noteq> dst + 4 + 4 * of_nat k"
        using Suc.prems(3) [rule_format, of 0 "Suc k"] by (simp add: algebra_simps)
    qed
    with 0 show ?thesis by simp
  next
    case (Suc i')
    have a: "i' < n" using Suc Suc.prems(1) by simp
    have b: "\<forall>j<n. \<forall>k<n. (src + 4) + 4 * of_nat j \<noteq> (dst + 4) + 4 * of_nat k"
      using Suc.prems(2) [rule_format, of "Suc _" "Suc _"] by (simp add: algebra_simps)
    have c: "\<forall>j<n. \<forall>k<n. j \<noteq> k \<longrightarrow> (dst + 4) + 4 * of_nat j \<noteq> (dst + 4) + 4 * of_nat k"
      using Suc.prems(3) [rule_format, of "Suc _" "Suc _"] by (simp add: algebra_simps)
    have "src + 4 + 4 * of_nat i' \<noteq> dst"
      using Suc.prems(2) [rule_format, of "Suc i'" 0] a by (simp add: algebra_simps)
    then have d: "(m(dst := m src)) (src + 4 + 4 * of_nat i') = m (src + 4 + 4 * of_nat i')"
      by simp
    note e = Suc.IH [OF a b c, of "m(dst := m src)"]
    have "copy_words (m(dst := m src)) (dst + 4) (src + 4) n (dst + 4 + 4 * of_nat i')
        = m (src + 4 + 4 * of_nat i')"
      using d e by (simp only:)
    then show ?thesis using Suc by (simp add: algebra_simps)
  qed
qed

subsection \<open>What construction leaves in memory\<close>

lemma ctor_objs:
  "objs (GUIDialog_ctor img this cls w s) =
     (objs s)(this \<mapsto> \<lparr>m_wrapped = w, m_oldVTable = mem s (w + 76), dynamic_class = cls\<rparr>)"
  by (simp add: GUIDialog_ctor_def Let_def field_vtable)

lemma ctor_mem:
  "mem (GUIDialog_ctor img this cls w s) =
     (copy_words (mem s) (this + m_vtable_offset img) (mem s (w + 76)) 162)
       (this + m_vtable_offset img := this,
        this + m_vtable_offset img + 32 := OnEvent_Wrap_addr img,
        w + 76 := this + m_vtable_offset img)"
  by (simp add: GUIDialog_ctor_def Let_def field_vtable field_me field_OnEvent sizeof_VTable
      memcpy_def)

lemma ctor_vtable_ptr: "mem (GUIDialog_ctor img this cls w s) (w + 76) = this + m_vtable_offset img"
  by (simp add: ctor_mem)

lemma ctor_me:
  "w + 76 \<noteq> this + m_vtable_offset img \<Longrightarrow>
   mem (GUIDialog_ctor img this cls w s) (this + m_vtable_offset img) = this"
  by (simp add: ctor_mem)


lemma ctor_frame:
  assumes "\<forall>i<162. a \<noteq> this + m_vtable_offset img + 4 * of_nat i" "a \<noteq> w + 76"
  shows "mem (GUIDialog_ctor img this cls w s) a = mem s a"
proof -
  have "a \<noteq> this + m_vtable_offset img"
    using assms(1) [rule_format, of 0] by simp
  moreover have "a \<noteq> this + m_vtable_offset img + 32"
    using assms(1) [rule_format, of 8] by simp
  moreover have "copy_words (mem s) (this + m_vtable_offset img) (mem s (w + 76)) 162 a = mem s a"
    using assms(1) by (intro copy_words_other) simp
  ultimately show ?thesis using assms(2) by (simp add: ctor_mem)
qed

lemma ctor_copy:
  assumes ap: "apart (this + m_vtable_offset img) 648 (mem s (w + 76)) 648"
    and r1: "in_range (this + m_vtable_offset img) 648"
    and r2: "in_range (mem s (w + 76)) 648"
    and vf: "apart (w + 76) 4 (this + m_vtable_offset img) 648" "in_range (w + 76) 4"
    and i: "i < 162" "i \<noteq> 0" "i \<noteq> 8"
  shows "mem (GUIDialog_ctor img this cls w s) (this + m_vtable_offset img + 4 * of_nat i)
           = mem s (mem s (w + 76) + 4 * of_nat i)"
proof -
  let ?sh = "this + m_vtable_offset img" and ?old = "mem s (w + 76)"
  have a: "?sh + 4 * of_nat i \<noteq> w + 76"
    using cell_outside [OF vf(1) vf(2) r1 i(1)] by simp
  have b: "?sh + 4 * of_nat i \<noteq> ?sh + 32"
    using cells_distinct [OF i(1) _ i(3), of ?sh] by simp
  have c: "?sh + 4 * of_nat i \<noteq> ?sh"
    using cells_distinct [OF i(1) _ i(2), of ?sh] by simp
  have d: "copy_words (mem s) ?sh ?old 162 (?sh + 4 * of_nat i) = mem s (?old + 4 * of_nat i)"
  proof (rule copy_words_at [OF i(1)])
    show "\<forall>j<162. \<forall>k<162. ?old + 4 * of_nat j \<noteq> ?sh + 4 * of_nat k"
      using cells_apart [OF ap r1 r2] by metis
    show "\<forall>j<162. \<forall>k<162. j \<noteq> k \<longrightarrow> ?sh + 4 * of_nat j \<noteq> ?sh + 4 * of_nat k"
      using cells_distinct by blast
  qed
  show ?thesis using a b c d by (simp add: ctor_mem)
qed

lemma ctor_storage_okD:
  assumes "ctor_storage_ok img this w m"
  shows "in_range (this + m_vtable_offset img) 648" "in_range (m (w + 76)) 648"
    "in_range (w + 76) 4" "apart (this + m_vtable_offset img) 648 (m (w + 76)) 648"
    "apart (w + 76) 4 (this + m_vtable_offset img) 648" "apart (w + 76) 4 (m (w + 76)) 648"
  using assms by (simp_all add: ctor_storage_ok_def Let_def field_vtable sizeof_VTable)

lemma ctor_copy_byte:
  assumes ok: "ctor_storage_ok img this w (mem s)"
    and k: "k < 648" "k mod 4 = 0" "k \<noteq> 0" "k \<noteq> 32"
  shows "mem (GUIDialog_ctor img this cls w s) (this + m_vtable_offset img + of_nat k)
           = mem s (mem s (w + 76) + of_nat k)"
proof -
  note d = ctor_storage_okD [OF ok]
  obtain i where i: "k = 4 * i" using k(2) by (metis mod_eq_0_iff_dvd dvd_def)
  have "i < 162" "i \<noteq> 0" "i \<noteq> 8" using k i by auto
  from ctor_copy [OF d(4) d(1) d(2) d(5) d(3) this, of cls] show ?thesis
    by (simp add: i)
qed


text \<open>
  C3. After construction, every 32-bit cell of the Shadow other than the Identity Slot
  \<open>me\<close> and the function pointer of the overridden \<open>OnEvent\<close> slot holds what the
  original table held at the same byte offset before construction. In particular every
  other declared member of the table (the adjustor offsets and function pointers of
  \<open>AddElement\<close>, \<open>Refresh\<close> and \<open>ShowDialog\<close>, the adjustor offset of \<open>OnEvent\<close>, and
  the padding) reads the same through the Shadow as it did through the original.
\<close>

theorem shadow_copies_untouched_slots:
  assumes "ctor_storage_ok img this w (mem s)"
    and "k < sizeof_struct 4 GUIDialog_Wrapped_VTable" "k mod 4 = 0"
    and "k \<noteq> field_offset GUIDialog_Wrapped_VTable ''me''"
    and "k \<noteq> field_offset GUIDialog_Wrapped_VTable ''OnEvent''"
  shows "mem (GUIDialog_ctor img this cls w s) (this + m_vtable_offset img + of_nat k)
           = mem s (mem s (w + field GUIDialog_Wrapped ''vtable'') + of_nat k) \<and>
         read_fields (mem (GUIDialog_ctor img this cls w s)) (this + m_vtable_offset img) copied_fields
           = read_fields (mem s) (mem s (w + field GUIDialog_Wrapped ''vtable'')) copied_fields"
proof -
  have k: "k < 648" "k \<noteq> 0" "k \<noteq> 32"
    using assms(2,4,5)
    by (simp_all add: sizeof_VTable field_offset_me field_offset_OnEvent)
  have A: "mem (GUIDialog_ctor img this cls w s) (this + m_vtable_offset img + of_nat k)
           = mem s (mem s (w + 76) + of_nat k)"
    using ctor_copy_byte [OF assms(1) k(1) assms(3) k(2,3)] .
  have B: "\<And>j. j < 648 \<Longrightarrow> j mod 4 = 0 \<Longrightarrow> j \<noteq> 0 \<Longrightarrow> j \<noteq> 32 \<Longrightarrow>
     mem (GUIDialog_ctor img this cls w s) (this + m_vtable_offset img + of_nat j)
           = mem s (mem s (w + 76) + of_nat j)"
    by (rule ctor_copy_byte [OF assms(1)])
  show ?thesis
    by (simp add: A field_vtable read_fields_def copied_fields_eq
        B [of 4, simplified] B [of 12, simplified] B [of 24, simplified] B [of 28, simplified]
        B [of 36, simplified] B [of 48, simplified] B [of 52, simplified] B [of 56, simplified]
        B [of 60, simplified] B [of 108, simplified] B [of 112, simplified] B [of 116, simplified]
        B [of 120, simplified] B [of 396, simplified] B [of 400, simplified] B [of 404, simplified]
        B [of 408, simplified])
qed

theorem shadow_copies_untouched_slots_witness:
  "mem (GUIDialog_ctor example_image 0x8C100000 0 0x8C000000 example_state) 0x8C100044
     = 0x80300038"
proof -
  have ok: "ctor_storage_ok example_image 0x8C100000 0x8C000000 (mem example_state)"
    by (simp add: ctor_storage_ok_def example_image_def example_state_def field_vtable
        sizeof_VTable in_range_def apart_def)
  have k: "(56 :: nat) < sizeof_struct 4 GUIDialog_Wrapped_VTable" "(56 :: nat) mod 4 = 0"
    "56 \<noteq> field_offset GUIDialog_Wrapped_VTable ''me''"
    "56 \<noteq> field_offset GUIDialog_Wrapped_VTable ''OnEvent''"
    by (simp_all add: sizeof_VTable field_offset_me field_offset_OnEvent)
  show ?thesis
    using shadow_copies_untouched_slots [OF ok k, of 0]
    by (simp add: example_image_def example_state_def field_vtable)
qed

text \<open>
  C1. Construction writes the wrapper's address into the Identity Slot of its Shadow.
  Afterwards the Trampoline, called with any foreign self-pointer whose table pointer
  leads to that Shadow (the foreign object the wrapper was built for is one), recovers
  exactly that address, and runs the virtual \<open>OnEvent\<close> of that wrapper.
\<close>

theorem identity_round_trip:
  assumes "w + field GUIDialog_Wrapped ''vtable'' \<noteq> this + m_vtable_offset img"
    and "mem (GUIDialog_ctor img this cls w s) (self + field GUIDialog_Wrapped ''vtable'')
           = this + m_vtable_offset img"
  shows "mem (GUIDialog_ctor img this cls w s)
           (this + m_vtable_offset img + field GUIDialog_Wrapped_VTable ''me'') = this \<and>
         recover_wrapper (mem (GUIDialog_ctor img this cls w s)) self = this \<and>
         recover_wrapper (mem (GUIDialog_ctor img this cls w s)) w = this \<and>
         OnEvent_Wrap virt self event (GUIDialog_ctor img this cls w s)
           = virt cls this self event (GUIDialog_ctor img this cls w s)"
proof -
  let ?s' = "GUIDialog_ctor img this cls w s"
  have me: "mem ?s' (this + m_vtable_offset img) = this"
    using assms(1) by (simp add: ctor_me field_vtable)
  have r: "recover_wrapper (mem ?s') self = this"
    using assms(2) me by (simp add: recover_wrapper_def field_me)
  have rw: "recover_wrapper (mem ?s') w = this"
    using me by (simp add: recover_wrapper_def field_me field_vtable ctor_vtable_ptr)
  have "OnEvent_Wrap virt self event ?s' = virt cls this self event ?s'"
    by (simp add: OnEvent_Wrap_def r ctor_objs)
  with me r rw show ?thesis by (simp add: field_me)
qed

theorem identity_round_trip_witness:
  "recover_wrapper (mem (GUIDialog_ctor example_image 0x8C100000 0 0x8C000000 example_state))
     0x8C000000 = 0x8C100000"
proof -
  have h1: "(0x8C000000 :: addr) + field GUIDialog_Wrapped ''vtable''
              \<noteq> 0x8C100000 + m_vtable_offset example_image"
    by (simp add: field_vtable example_image_def)
  have h2: "mem (GUIDialog_ctor example_image 0x8C100000 0 0x8C000000 example_state)
              (0x8C000000 + field GUIDialog_Wrapped ''vtable'')
            = 0x8C100000 + m_vtable_offset example_image"
    by (simp only: field_vtable ctor_vtable_ptr)
  show ?thesis using identity_round_trip [OF h1 h2] by simp
qed









subsection \<open>Several wrappers alive together\<close>

lemma ctor_establishes:
  assumes "instance_ok img (this, cls, w)"
  shows "wired img (GUIDialog_ctor img this cls w s) (this, cls, w)"
proof -
  have "w + 76 \<noteq> this + m_vtable_offset img"
    using assms cell_outside [of "w + 76" "this + m_vtable_offset img" 0]
    by (simp add: field_vtable sizeof_VTable)
  then show ?thesis by (simp add: ctor_vtable_ptr ctor_me ctor_objs field_vtable field_me)
qed

lemma ctor_preserves:
  assumes w: "wired img s (this, cls, w)"
    and ok: "instance_ok img (this, cls, w)" "instance_ok img (this', cls', w')"
    and ap: "instances_apart img (this', cls', w') (this, cls, w)"
  shows "wired img (GUIDialog_ctor img this' cls' w' s) (this, cls, w)"
proof -
  let ?sh = "this + m_vtable_offset img" and ?sh' = "this' + m_vtable_offset img"
  from ok have r: "in_range ?sh 648" "in_range (w + 76) 4" "in_range ?sh' 648" "in_range (w' + 76) 4"
    by (simp_all add: field_vtable sizeof_VTable)
  from ap have a: "apart ?sh' 648 ?sh 648" "apart (w' + 76) 4 ?sh 648" "apart (w + 76) 4 ?sh' 648"
    "apart (w' + 76) 4 (w + 76) 4"
    by (simp_all add: field_vtable sizeof_VTable)
  have 1: "\<forall>i<162. w + 76 \<noteq> ?sh' + 4 * of_nat i"
    using cell_outside [OF a(3) r(2) r(3)] by blast
  have 2: "w + 76 \<noteq> w' + 76" using apart_cells_neq [OF a(4)] by simp
  have 3: "\<forall>i<162. ?sh \<noteq> ?sh' + 4 * of_nat i"
    using cells_apart [OF a(1) r(3) r(1), of _ 0] by (simp add: eq_commute)
  have 4: "?sh \<noteq> w' + 76"
    using cell_outside [OF a(2) r(4) r(1), of 0] by simp
  have 5: "this \<noteq> this'" using 3 [rule_format, of 0] by auto
  have "mem (GUIDialog_ctor img this' cls' w' s) (w + 76) = mem s (w + 76)"
    using ctor_frame [OF 1 2] .
  moreover have "mem (GUIDialog_ctor img this' cls' w' s) ?sh = mem s ?sh"
    using ctor_frame [OF 3 4] .
  moreover have "objs (GUIDialog_ctor img this' cls' w' s) this = objs s this"
    using 5 by (simp add: ctor_objs)
  ultimately show ?thesis using w by (simp add: field_vtable field_me)
qed

lemma construct_all_preserves:
  assumes "wired img s x" "instance_ok img x" "list_all (\<lambda>y. instances_apart img y x) ys"
    "list_all (instance_ok img) ys"
  shows "wired img (construct_all img ys s) x"
  using assms
proof (induction ys arbitrary: s)
  case Nil
  then show ?case by simp
next
  case (Cons y ys)
  obtain this cls w where x: "x = (this, cls, w)" by (cases x)
  obtain this' cls' w' where y: "y = (this', cls', w')" by (cases y)
  have "wired img (GUIDialog_ctor img this' cls' w' s) x"
    using Cons.prems unfolding x y by (intro ctor_preserves) simp_all
  then show ?case using Cons.IH Cons.prems by (simp add: y)
qed

lemma instances_apart_sym: "instances_apart img x y \<Longrightarrow> instances_apart img y x"
  by (cases x; cases y) (auto simp: apart_def)

lemma all_separate_ok: "all_separate img xs \<Longrightarrow> list_all (instance_ok img) xs"
  by (induction xs) simp_all

lemma construct_all_wired:
  assumes "all_separate img insts" "x \<in> set insts"
  shows "wired img (construct_all img insts s) x"
  using assms
proof (induction insts arbitrary: s)
  case Nil
  then show ?case by simp
next
  case (Cons y ys)
  obtain this' cls' w' where y: "y = (this', cls', w')" by (cases y)
  show ?case
  proof (cases "x = y")
    case True
    have "wired img (GUIDialog_ctor img this' cls' w' s) y"
      using Cons.prems(1) unfolding y by (intro ctor_establishes) simp
    moreover have "list_all (\<lambda>z. instances_apart img z y) ys"
      using Cons.prems(1) by (auto simp: list_all_iff intro: instances_apart_sym)
    ultimately have "wired img (construct_all img ys (GUIDialog_ctor img this' cls' w' s)) y"
      using Cons.prems(1) by (intro construct_all_preserves) (simp_all add: all_separate_ok)
    then show ?thesis using True by (simp add: y)
  next
    case False
    then have "x \<in> set ys" using Cons.prems(2) by simp
    then show ?thesis using Cons.IH Cons.prems(1) by (simp add: y)
  qed
qed

lemma owner_in_set: "owner insts d = Some (this, cls) \<Longrightarrow> (this, cls, d) \<in> set insts"
  by (induction insts) (auto split: if_splits)

lemma wired_dispatch:
  assumes "wired img s (this, cls, w)"
  shows "recover_wrapper (mem s) w = this"
    and "OnEvent_Wrap virt w event s = virt cls this w event s"
proof -
  show r: "recover_wrapper (mem s) w = this"
    using assms by (simp add: recover_wrapper_def)
  from assms obtain obj where "objs s this = Some obj" "dynamic_class obj = cls" by auto
  with r show "OnEvent_Wrap virt w event s = virt cls this w event s"
    by (simp add: OnEvent_Wrap_def)
qed

lemma dispatch_all_direct:
  assumes "keeps_wiring img insts virt" "\<forall>x\<in>set insts. wired img s x"
    "list_all (\<lambda>(d, e). owner insts d \<noteq> None) calls"
  shows "dispatch_all virt calls s = direct_all virt insts calls s"
  using assms(2,3)
proof (induction calls arbitrary: s)
  case Nil
  then show ?case by simp
next
  case (Cons call calls)
  obtain d e where call: "call = (d, e)" by (cases call)
  from Cons.prems(2) obtain this cls where own: "owner insts d = Some (this, cls)"
    by (auto simp: call)
  have w: "wired img s (this, cls, d)"
    using owner_in_set [OF own] Cons.prems(1) by blast
  have step: "OnEvent_Wrap virt d e s = virt cls this d e s"
    using wired_dispatch(2) [OF w] .
  show ?case
  proof (cases "virt cls this d e s")
    case None
    then show ?thesis by (simp add: call own step)
  next
    case (Some a)
    obtain r s' where a: "a = (r, s')" by (cases a)
    have "\<forall>x\<in>set insts. wired img s' x"
      using assms(1) Some Cons.prems(1) unfolding a keeps_wiring_def by blast
    then have "dispatch_all virt calls s' = direct_all virt insts calls s'"
      using Cons.IH Cons.prems(2) by simp
    then show ?thesis by (simp add: call own step Some a)
  qed
qed


lemma ctor_hits: "hits (GUIDialog_ctor img this cls w s) = hits s"
  by (simp add: GUIDialog_ctor_def Let_def)

text \<open>
  C4. After any number of wrappers of the class have been constructed one after the
  other, each over its own foreign object, the Trampoline called with the foreign object
  of one of them recovers that wrapper and runs that wrapper's own override, with that
  wrapper as \<open>this\<close>: what the call returns is what that instance's override returns, and
  no other instance's override is run. The same holds along any run of events addressed
  to these foreign objects in any order: the run through the Trampoline is, result by
  result and state by state, the run that hands each event to the override of the wrapper
  addressed.
\<close>

theorem no_cross_talk:
  assumes sep: "all_separate img insts"
    and inst: "(this, cls, w) \<in> set insts"
    and kw: "keeps_wiring img insts virt"
    and calls: "list_all (\<lambda>(d, e). owner insts d \<noteq> None) calls"
  shows "recover_wrapper (mem (construct_all img insts s)) w = this \<and>
         OnEvent_Wrap virt w event (construct_all img insts s)
           = virt cls this w event (construct_all img insts s) \<and>
         dispatch_all virt calls (construct_all img insts s)
           = direct_all virt insts calls (construct_all img insts s)"
proof -
  have all: "\<forall>x\<in>set insts. wired img (construct_all img insts s) x"
    using construct_all_wired [OF sep] by blast
  then have wd: "wired img (construct_all img insts s) (this, cls, w)"
    using inst by blast
  show ?thesis
    using wired_dispatch [OF wd] dispatch_all_direct [OF kw all calls] by simp
qed

theorem no_cross_talk_witness:
  "map_option (\<lambda>(rs, s). (rs, hits s 0x8C100000, hits s 0x8C101000))
     (dispatch_all counting_virt [(0x8C000000, 7), (0x8C001000, 7), (0x8C000000, 9)]
        (construct_all example_image example_instances example_counting_state))
     = Some ([100, 101, 100], 2, 1)"
proof -
  have sep: "all_separate example_image example_instances"
    by (simp add: example_instances_def example_image_def field_vtable sizeof_VTable
        in_range_def apart_def)
  have inst: "(0x8C100000, 0, 0x8C000000) \<in> set example_instances"
    by (simp add: example_instances_def)
  have kw: "keeps_wiring example_image example_instances counting_virt"
    by (auto simp: keeps_wiring_def counting_virt_def)
  have calls: "list_all (\<lambda>(d, e). owner example_instances d \<noteq> None)
      [(0x8C000000, 7), (0x8C001000, 7), (0x8C000000, 9)]"
    by (simp add: example_instances_def)
  have through: "dispatch_all counting_virt [(0x8C000000, 7), (0x8C001000, 7), (0x8C000000, 9)]
        (construct_all example_image example_instances example_counting_state)
      = direct_all counting_virt example_instances
          [(0x8C000000, 7), (0x8C001000, 7), (0x8C000000, 9)]
          (construct_all example_image example_instances example_counting_state)"
    using no_cross_talk [OF sep inst kw calls, where s = example_counting_state] by blast
  have direct: "map_option (\<lambda>(rs, s). (rs, hits s 0x8C100000, hits s 0x8C101000))
     (direct_all counting_virt example_instances
        [(0x8C000000, 7), (0x8C001000, 7), (0x8C000000, 9)]
        (construct_all example_image example_instances example_counting_state))
     = Some ([100, 101, 100], 2, 1)"
    by (simp add: example_instances_def counting_virt_def ctor_hits example_counting_state_def)
  show ?thesis unfolding through by (rule direct)
qed

end
